theory Spec2Isabelle
  imports Main
begin

section \<open>Data of cmd/config-reloader/main.go\<close>

subsection \<open>Durations\<close>

text \<open>
  Go's \<^verbatim>\<open>time.Duration\<close> counts nanoseconds in an int64. The durations of this
  program (500 ms, 3 s, 5 s, 10 s, one minute) and the times of the first ticks are far
  from the int64 range, so they are integers here.
\<close>

type_synonym duration = int

definition Millisecond :: duration where
  "Millisecond = 1000000"

definition Second :: duration where
  "Second = 1000 * Millisecond"

definition Minute :: duration where
  "Minute = 60 * Second"

subsection \<open>Errors, HTTP responses, log lines\<close>

text \<open>
  A Go \<^verbatim>\<open>error\<close> is its message; \<^verbatim>\<open>nil\<close> is \<open>None\<close>. A
  \<^verbatim>\<open>*http.Response\<close> is a pointer: \<open>None\<close> is the nil pointer. The pair
  \<open>(resp, err)\<close> is what \<^verbatim>\<open>http.DefaultClient.Do(req)\<close> returns; on a transport
  error (connection refused, timeout) it is \<open>(None, Some e)\<close>.
\<close>

type_synonym error = string

record response =
  StatusCode :: int

type_synonym do_result = "response option \<times> error option"

definition StatusOK :: int where
  "StatusOK = 200"

datatype level = Info | Error

subsection \<open>Observable actions\<close>

text \<open>
  The program is a sequence of effects on the outside world. Each function of the model
  returns the list of actions it performs, in program order, and how it ends.
  \<open>ClientDo url t\<close> is the GET request to \<open>url\<close> issued at time \<open>t\<close> (nanoseconds
  since the ticker was created).
\<close>

datatype actor = ReloadWatcher | SignalListener | MetricsServer

record reloader_Options =
  ReloadURL :: string
  CfgFile :: string
  CfgOutputFile :: string
  WatchedDirs :: "string list"
  WatchInterval :: duration
  RetryInterval :: duration
  DelayInterval :: duration

datatype action =
    Log level string
  | MustRegister
  | SignalNotify
  | NewTicker duration
  | ClientDo string duration
  | DeferClose
  | NilDereference
  | TickerStop
  | DoneSend
  | BodyClose
  | DoneRecv
  | ReloaderNew reloader_Options
  | ServerNew string
  | HttpHandle string
  | GroupAdd actor
  | GroupRun
  | ContextCancel
  | CloseCancel
  | WithTimeout duration
  | ServerShutdown duration
  | OsExit int

text \<open>
  How a goroutine or the process ends: \<open>Exited c\<close> is \<^verbatim>\<open>os.Exit(c)\<close>,
  \<open>Panicked\<close> an unrecovered run-time panic, \<open>Returned\<close> the normal return of the
  function, \<open>Blocked\<close> a function that is still waiting (in a \<^verbatim>\<open>select\<close> or in a
  call that has not returned) when the observation ends.
\<close>

datatype ending = Exited int | Panicked | Returned | Blocked

text \<open>
  The exit status of the process: the argument of \<^verbatim>\<open>os.Exit\<close>, 2 for an unrecovered
  panic (the Go run time's status), 0 when \<^verbatim>\<open>main\<close> returns.
\<close>

fun exit_status :: "ending \<Rightarrow> int option" where
  "exit_status (Exited c) = Some c"
| "exit_status Panicked = Some 2"
| "exit_status Returned = Some 0"
| "exit_status Blocked = None"

section \<open>The readiness gate (main.go, lines 82 to 111)\<close>

text \<open>
  Each iteration of the polling loop is one \<^verbatim>\<open>select\<close> over the signal channel
  \<^verbatim>\<open>term\<close> and the ticker channel. What the select received is an event:
  \<open>TermSignal\<close>, or \<open>Tick t r\<close>, a tick received at time \<open>t\<close>, with \<open>r\<close> the result of
  the request that the iteration then sends.
\<close>

datatype select_event = TermSignal | Tick duration do_result

text \<open>
  The loop, on the events its selects receive; \<open>n\<close> counts the deferred
  \<^verbatim>\<open>resp.Body.Close()\<close> calls so far, which run when the goroutine returns.
  \<^verbatim>\<open>defer resp.Body.Close()\<close> (line 95) evaluates \<^verbatim>\<open>resp.Body\<close> when the defer
  statement runs, before the error check of line 96: with a nil \<^verbatim>\<open>resp\<close> this is a
  nil pointer dereference, and the panicking goroutine runs the closes deferred by the
  earlier iterations before the process dies (\<^verbatim>\<open>os.Exit\<close> runs none). With no event
  left the goroutine is still in its select.
  The channel \<^verbatim>\<open>done\<close> is unbuffered: the send of line 105 completes together with
  main's receive of line 111 (\<open>DoneRecv\<close>). The goroutine then returns and runs its
  deferred closes while main goes on; the trace lists the closes first.
\<close>

fun poll_ready :: "string \<Rightarrow> select_event list \<Rightarrow> nat \<Rightarrow> action list \<times> ending" where
  "poll_ready url [] n = ([], Blocked)"
| "poll_ready url (TermSignal # es) n =
     ([Log Info ''received SIGTERM, exiting gracefully...'', OsExit 0], Exited 0)"
| "poll_ready url (Tick t (resp, err) # es) n =
     (case resp of
        None \<Rightarrow> ([ClientDo url t, NilDereference] @ replicate n BodyClose, Panicked)
      | Some r \<Rightarrow>
          if err \<noteq> None then
            ([ClientDo url t, DeferClose, Log Error ''polling ready-url'', OsExit 1], Exited 1)
          else if StatusCode r = StatusOK then
            ([ClientDo url t, DeferClose, Log Info ''ready-url is healthy'', TickerStop, DoneSend,
              DoneRecv] @ replicate (Suc n) BodyClose, Returned)
          else
            (case poll_ready url es (Suc n) of
               (tr, e) \<Rightarrow> (ClientDo url t # DeferClose # tr, e)))"

definition ready_goroutine :: "string \<Rightarrow> select_event list \<Rightarrow> action list \<times> ending" where
  "ready_goroutine url es =
     (case poll_ready url es 0 of
        (tr, e) \<Rightarrow> (Log Info ''ensure ready-url is healthy'' # tr, e))"

text \<open>
  \<^verbatim>\<open>time.NewTicker(d)\<close> delivers its first tick \<open>d\<close> after its creation and one more
  every \<open>d\<close>: tick number \<open>k\<close> (from 0) fires at time \<open>(k + 1) * d\<close>. \<open>ticks\<close>, \<open>selects\<close>
  and \<open>wait_ready\<close> are the gate when every request is answered by the time the next tick
  fires, so that each tick is received when it fires; the general case, with the time
  that requests take, follows below (\<open>wait_ready_latency\<close>).
  \<open>endpoint t\<close> is the result of a request sent at time \<open>t\<close>. \<open>term\<close> is the number of the
  iteration whose select receives the termination signal, if any, and \<open>n\<close> the number of
  iterations observed.
\<close>

definition ticker_time :: "duration \<Rightarrow> nat \<Rightarrow> duration" where
  "ticker_time d k = int (Suc k) * d"

definition ticks :: "duration \<Rightarrow> (duration \<Rightarrow> do_result) \<Rightarrow> nat \<Rightarrow> select_event list" where
  "ticks d endpoint n = map (\<lambda>k. Tick (ticker_time d k) (endpoint (ticker_time d k))) [0..<n]"

definition selects ::
  "duration \<Rightarrow> (duration \<Rightarrow> do_result) \<Rightarrow> nat option \<Rightarrow> nat \<Rightarrow> select_event list" where
  "selects d endpoint term n =
     (case term of
        None \<Rightarrow> ticks d endpoint n
      | Some j \<Rightarrow> if j < n then ticks d endpoint j @ [TermSignal] else ticks d endpoint n)"

text \<open>
  Lines 82 to 111: the ticker of 500 ms and the goroutine. Main waits in
  \<^verbatim>\<open><-done\<close> and goes on only when the goroutine has sent on \<^verbatim>\<open>done\<close>.
\<close>

definition wait_ready ::
  "string \<Rightarrow> (duration \<Rightarrow> do_result) \<Rightarrow> nat option \<Rightarrow> nat \<Rightarrow> action list \<times> ending" where
  "wait_ready url endpoint term n =
     (case ready_goroutine url (selects (500 * Millisecond) endpoint term n) of
        (tr, e) \<Rightarrow> (NewTicker (500 * Millisecond) # tr, e))"

text \<open>
  The gate with the time that requests take. \<^verbatim>\<open>http.DefaultClient\<close> has no timeout,
  and the goroutine does not receive from the ticker while it waits in \<^verbatim>\<open>Do\<close>. The
  ticker's channel holds one tick, and a tick that fires while the channel is full is
  dropped. So the first tick that fires during a request stays in the channel and the
  next select receives it at once, when \<^verbatim>\<open>Do\<close> has returned; when no tick has fired
  during the request, the next select waits for the next one. With \<open>latency t\<close> the time
  that the request sent at time \<open>t\<close> takes, the next request is sent at the end of the
  request or at the first tick after \<open>t\<close>, whichever is later.
\<close>

definition next_tick :: "duration \<Rightarrow> duration \<Rightarrow> duration" where
  "next_tick d t = (t div d + 1) * d"

fun request_time :: "duration \<Rightarrow> (duration \<Rightarrow> duration) \<Rightarrow> nat \<Rightarrow> duration" where
  "request_time d latency 0 = d"
| "request_time d latency (Suc k) =
     (let t = request_time d latency k in max (t + latency t) (next_tick d t))"

definition ticks_latency ::
  "duration \<Rightarrow> (duration \<Rightarrow> do_result) \<Rightarrow> (duration \<Rightarrow> duration) \<Rightarrow> nat \<Rightarrow> select_event list" where
  "ticks_latency d endpoint latency n =
     map (\<lambda>k. Tick (request_time d latency k) (endpoint (request_time d latency k))) [0..<n]"

definition selects_latency ::
  "duration \<Rightarrow> (duration \<Rightarrow> do_result) \<Rightarrow> (duration \<Rightarrow> duration) \<Rightarrow> nat option \<Rightarrow> nat
     \<Rightarrow> select_event list" where
  "selects_latency d endpoint latency term n =
     (case term of
        None \<Rightarrow> ticks_latency d endpoint latency n
      | Some j \<Rightarrow>
          if j < n then ticks_latency d endpoint latency j @ [TermSignal]
          else ticks_latency d endpoint latency n)"

definition wait_ready_latency ::
  "string \<Rightarrow> (duration \<Rightarrow> do_result) \<Rightarrow> (duration \<Rightarrow> duration) \<Rightarrow> nat option \<Rightarrow> nat
     \<Rightarrow> action list \<times> ending" where
  "wait_ready_latency url endpoint latency term n =
     (case ready_goroutine url (selects_latency (500 * Millisecond) endpoint latency term n) of
        (tr, e) \<Rightarrow> (NewTicker (500 * Millisecond) # tr, e))"

text \<open>The times and the targets of the requests in a trace.\<close>

fun request_times :: "action list \<Rightarrow> duration list" where
  "request_times [] = []"
| "request_times (ClientDo u t # as) = t # request_times as"
| "request_times (a # as) = request_times as"

fun request_urls :: "action list \<Rightarrow> string list" where
  "request_urls [] = []"
| "request_urls (ClientDo u t # as) = u # request_urls as"
| "request_urls (a # as) = request_urls as"

fun is_log :: "action \<Rightarrow> bool" where
  "is_log (Log l m) = True"
| "is_log a = False"

section \<open>Command-line flags (main.go, lines 38 to 52 and 182 to 191)\<close>

text \<open>
  \<^verbatim>\<open>stringSlice\<close> is a slice of strings. \<^verbatim>\<open>Set\<close> appends its argument and returns
  nil; \<^verbatim>\<open>String\<close> joins the elements with a comma and a space.
\<close>

type_synonym stringSlice = "string list"

fun strings_Join :: "string list \<Rightarrow> string \<Rightarrow> string" where
  "strings_Join [] sep = []"
| "strings_Join [x] sep = x"
| "strings_Join (x # xs) sep = x @ sep @ strings_Join xs sep"

definition stringSlice_String :: "stringSlice \<Rightarrow> string" where
  "stringSlice_String ss = strings_Join ss '', ''"

definition stringSlice_Set :: "stringSlice \<Rightarrow> string \<Rightarrow> stringSlice \<times> error option" where
  "stringSlice_Set ss v = (ss @ [v], None)"

text \<open>The variables of lines 38 to 50, with the default values given at registration.\<close>

record flags =
  watchedDirs :: stringSlice
  configFile :: string
  configFileOutput :: string
  reloadURLStr :: string
  readyURLStr :: string
  listenAddress :: string

definition flag_defaults :: flags where
  "flag_defaults =
     \<lparr>watchedDirs = [],
      configFile = [],
      configFileOutput = [],
      reloadURLStr = ''http://127.0.0.1:19090/-/reload'',
      readyURLStr = ''http://127.0.0.1:19090/-/ready'',
      listenAddress = '':19091''\<rparr>"

text \<open>
  \<^verbatim>\<open>flag.Parse\<close> of the standard library, on the command line taken as its list of
  (flag name, value) pairs in order: a string flag stores the value in its variable, the
  flag registered with \<^verbatim>\<open>flag.Var\<close> calls \<^verbatim>\<open>Set\<close> on its value, and a name that
  was not registered is an error (the help flags give the error \<open>flag_ErrHelp\<close>).
\<close>

definition flag_ErrHelp :: error where
  "flag_ErrHelp = ''flag: help requested''"

definition flag_set :: "string \<Rightarrow> string \<Rightarrow> flags \<Rightarrow> error + flags" where
  "flag_set name v fl =
     (if name = ''config-file'' then Inr (fl\<lparr>configFile := v\<rparr>)
      else if name = ''config-file-output'' then Inr (fl\<lparr>configFileOutput := v\<rparr>)
      else if name = ''reload-url'' then Inr (fl\<lparr>reloadURLStr := v\<rparr>)
      else if name = ''ready-url'' then Inr (fl\<lparr>readyURLStr := v\<rparr>)
      else if name = ''listen-address'' then Inr (fl\<lparr>listenAddress := v\<rparr>)
      else if name = ''watched-dir'' then
        (case stringSlice_Set (watchedDirs fl) v of
           (ss, None) \<Rightarrow> Inr (fl\<lparr>watchedDirs := ss\<rparr>)
         | (ss, Some e) \<Rightarrow> Inl e)
      else if name = ''h'' \<or> name = ''help'' then Inl flag_ErrHelp
      else Inl (''flag provided but not defined: -'' @ name))"

fun flag_Parse :: "(string \<times> string) list \<Rightarrow> flags \<Rightarrow> error + flags" where
  "flag_Parse [] fl = Inr fl"
| "flag_Parse ((name, v) # as) fl =
     (case flag_set name v fl of
        Inl e \<Rightarrow> Inl e
      | Inr fl' \<Rightarrow> flag_Parse as fl')"

section \<open>The actors (main.go, lines 131 to 173)\<close>

text \<open>
  The reload watcher runs \<^verbatim>\<open>rel.Watch(ctx)\<close> of the reloader library and returns its
  result; its interrupt cancels the context.
\<close>

definition reload_execute :: "error option \<Rightarrow> error option" where
  "reload_execute watch_result = watch_result"

definition reload_interrupt :: "error option \<Rightarrow> action list" where
  "reload_interrupt e = [ContextCancel]"

text \<open>
  The signal listener selects over the signal channel and its own \<^verbatim>\<open>cancel\<close>
  channel, and returns nil in both cases; its interrupt closes \<^verbatim>\<open>cancel\<close>.
\<close>

datatype listener_event = TermReceived | CancelClosed

fun signal_execute :: "listener_event \<Rightarrow> action list \<times> error option" where
  "signal_execute TermReceived =
     ([Log Info ''received SIGTERM, exiting gracefully...''], None)"
| "signal_execute CancelClosed = ([], None)"

definition signal_interrupt :: "error option \<Rightarrow> action list" where
  "signal_interrupt e = [CloseCancel]"

text \<open>
  The metrics server. \<^verbatim>\<open>http.Server\<close> belongs to the standard library; the model
  keeps of it whether it accepts connections and, for each request in flight, the time it
  still needs. \<^verbatim>\<open>Shutdown(ctx)\<close> follows its documentation: it closes the listeners at
  once, then waits for the connections to become idle; when the context expires first it
  returns the context's error and leaves the remaining connections as they are. Its result
  here is the server afterwards, the time the call took, and the error.
\<close>

record server =
  Addr :: string
  listening :: bool
  inflight :: "duration list"

definition drain_time :: "server \<Rightarrow> duration" where
  "drain_time s = foldr max (inflight s) 0"

definition server_Shutdown :: "duration \<Rightarrow> server \<Rightarrow> server \<times> duration \<times> error option" where
  "server_Shutdown timeout s =
     (if drain_time s \<le> timeout then
        (s\<lparr>listening := False, inflight := []\<rparr>, drain_time s, None)
      else
        (s\<lparr>listening := False,
           inflight := filter (\<lambda>d. 0 < d) (map (\<lambda>d. d - timeout) (inflight s))\<rparr>,
         timeout, Some ''context deadline exceeded''))"

text \<open>\<^verbatim>\<open>ListenAndServe\<close> always returns a non-nil error, given here.\<close>

definition metrics_execute :: "string \<Rightarrow> error \<Rightarrow> action list \<times> error option" where
  "metrics_execute addr serve_error =
     ([Log Info ''Starting web server for metrics''], Some serve_error)"

definition metrics_interrupt ::
  "error option \<Rightarrow> server \<Rightarrow> action list \<times> server \<times> duration" where
  "metrics_interrupt e s =
     (case server_Shutdown Minute s of
        (s', waited, err) \<Rightarrow>
          ([WithTimeout Minute, ServerShutdown Minute]
             @ (if err \<noteq> None then [Log Error ''Server failed to shut down gracefully.''] else [])
             @ [ContextCancel],
           s', waited))"

fun is_shutdown :: "action \<Rightarrow> bool" where
  "is_shutdown (ServerShutdown d) = True"
| "is_shutdown a = False"

section \<open>The program (main.go, lines 37 to 180)\<close>

text \<open>
  What main gets from outside: the command line, the results of \<^verbatim>\<open>url.Parse\<close> and
  \<^verbatim>\<open>http.NewRequest\<close> (standard library) on a string, the readiness endpoint, the
  arrival of the termination signal during the readiness wait, and what \<^verbatim>\<open>g.Run()\<close>
  of the run-group library returns (\<open>None\<close> while it has not returned).
\<close>

record environment =
  args :: "(string \<times> string) list"
  url_Parse :: "string \<Rightarrow> error option"
  http_NewRequest :: "string \<Rightarrow> error option"
  ready_endpoint :: "duration \<Rightarrow> do_result"
  term_iteration :: "nat option"
  iterations :: nat
  group_Run :: "error option option"

text \<open>Lines 113 to 179: the reloader, the three actors, \<^verbatim>\<open>g.Run()\<close> and its error.\<close>

definition supervise :: "flags \<Rightarrow> error option option \<Rightarrow> action list \<times> ending" where
  "supervise fl run_result =
     (let tr =
        [ReloaderNew
           \<lparr>ReloadURL = reloadURLStr fl,
            CfgFile = configFile fl,
            CfgOutputFile = configFileOutput fl,
            WatchedDirs = watchedDirs fl,
            WatchInterval = 10 * Second,
            RetryInterval = 5 * Second,
            DelayInterval = 3 * Second\<rparr>,
         GroupAdd ReloadWatcher,
         GroupAdd SignalListener,
         ServerNew (listenAddress fl),
         HttpHandle ''/metrics'',
         GroupAdd MetricsServer,
         GroupRun]
      in case run_result of
           None \<Rightarrow> (tr, Blocked)
         | Some None \<Rightarrow> (tr, Returned)
         | Some (Some e) \<Rightarrow> (tr @ [Log Error ''running reloader failed'', OsExit 1], Exited 1))"

definition main :: "environment \<Rightarrow> action list \<times> ending" where
  "main env =
     (case flag_Parse (args env) flag_defaults of
        Inl e \<Rightarrow> if e = flag_ErrHelp then ([OsExit 0], Exited 0) else ([OsExit 2], Exited 2)
      | Inr fl \<Rightarrow>
          (case url_Parse env (reloadURLStr fl) of
             Some e \<Rightarrow>
               ([MustRegister, Log Error ''parsing reloader URL failed'', OsExit 1], Exited 1)
           | None \<Rightarrow>
               (case http_NewRequest env (readyURLStr fl) of
                  Some e \<Rightarrow>
                    ([MustRegister, SignalNotify, Log Error ''creating request'', OsExit 1],
                     Exited 1)
                | None \<Rightarrow>
                    (case wait_ready (readyURLStr fl) (ready_endpoint env) (term_iteration env)
                            (iterations env) of
                       (tr, e) \<Rightarrow>
                         if e = Returned then
                           (case supervise fl (group_Run env) of
                              (tr', e') \<Rightarrow> ([MustRegister, SignalNotify] @ tr @ tr', e'))
                         else ([MustRegister, SignalNotify] @ tr, e)))))"

text \<open>The actions that construct, register or start an actor.\<close>

fun actor_action :: "action \<Rightarrow> bool" where
  "actor_action (ReloaderNew opts) = True"
| "actor_action (ServerNew addr) = True"
| "actor_action (HttpHandle path) = True"
| "actor_action (GroupAdd a) = True"
| "actor_action GroupRun = True"
| "actor_action a = False"

text \<open>
  A result of a readiness request that is a response with a status other than 200: the
  response is not nil and the error is nil.
\<close>

fun not_ready :: "do_result \<Rightarrow> bool" where
  "not_ready (Some r, None) = (StatusCode r \<noteq> StatusOK)"
| "not_ready other = False"

text \<open>The requests and deferred closes of the first \<open>n\<close> polls, none of them ready.\<close>

definition polls :: "string \<Rightarrow> duration \<Rightarrow> nat \<Rightarrow> action list" where
  "polls url d n = concat (map (\<lambda>k. [ClientDo url (ticker_time d k), DeferClose]) [0..<n])"

text \<open>The same for requests sent at the times \<open>tm 0\<close>, \<open>tm 1\<close>, and so on.\<close>

definition polls_at :: "string \<Rightarrow> (nat \<Rightarrow> duration) \<Rightarrow> nat \<Rightarrow> action list" where
  "polls_at url tm n = concat (map (\<lambda>k. [ClientDo url (tm k), DeferClose]) [0..<n])"

section \<open>Scenarios\<close>

text \<open>
  A readiness endpoint that answers 503 to every request sent before time \<open>t0\<close> and 200
  from \<open>t0\<close> on.
\<close>

definition endpoint_503_until :: "duration \<Rightarrow> duration \<Rightarrow> do_result" where
  "endpoint_503_until t0 t =
     (if t < t0 then (Some \<lparr>StatusCode = 503\<rparr>, None) else (Some \<lparr>StatusCode = 200\<rparr>, None))"

text \<open>An endpoint that answers 503 to every request, each answer taking 700 ms.\<close>

definition answers_503 :: "duration \<Rightarrow> do_result" where
  "answers_503 t = (Some \<lparr>StatusCode = 503\<rparr>, None)"

definition latency_700ms :: "duration \<Rightarrow> duration" where
  "latency_700ms t = 700 * Millisecond"

text \<open>
  An environment with no flag on the command line, where both setup calls succeed, the
  endpoint answers 503, no signal arrives and five iterations of the gate are observed;
  and the same with an endpoint that answers 200 and a given result of \<^verbatim>\<open>g.Run()\<close>.
\<close>

definition quiet_env :: environment where
  "quiet_env =
     \<lparr>args = [],
      url_Parse = (\<lambda>s. None),
      http_NewRequest = (\<lambda>s. None),
      ready_endpoint = (\<lambda>t. (Some \<lparr>StatusCode = 503\<rparr>, None)),
      term_iteration = None,
      iterations = 5,
      group_Run = None\<rparr>"

definition ready_env :: "error option option \<Rightarrow> environment" where
  "ready_env run_result =
     quiet_env\<lparr>ready_endpoint := (\<lambda>t. (Some \<lparr>StatusCode = 200\<rparr>, None)), group_Run := run_result\<rparr>"

section \<open>Auxiliary lemmas\<close>

lemma not_readyD: "not_ready x \<Longrightarrow> \<exists>r. x = (Some r, None) \<and> StatusCode r \<noteq> StatusOK"
  by (cases x rule: not_ready.cases) simp_all

lemma polls_Suc: "polls url d (Suc n) = polls url d n @ [ClientDo url (ticker_time d n), DeferClose]"
  by (simp add: polls_def)

lemma ticks_Suc: "ticks d ep (Suc n) = ticks d ep n @ [Tick (ticker_time d n) (ep (ticker_time d n))]"
  by (simp add: ticks_def)

lemma poll_ready_not_ready_step:
  "not_ready x \<Longrightarrow> poll_ready url (Tick t x # es) c =
     (ClientDo url t # DeferClose # fst (poll_ready url es (Suc c)), snd (poll_ready url es (Suc c)))"
  by (cases x rule: not_ready.cases) (simp_all add: case_prod_beta)

lemma poll_ready_ticks:
  "\<forall>k<n. not_ready (ep (ticker_time d k)) \<Longrightarrow>
   poll_ready url (ticks d ep n @ rest) c =
     (polls url d n @ fst (poll_ready url rest (c + n)), snd (poll_ready url rest (c + n)))"
proof (induction n arbitrary: rest)
  case 0
  then show ?case by (simp add: ticks_def polls_def)
next
  case (Suc n)
  have nr: "not_ready (ep (ticker_time d n))" using Suc.prems by simp
  have "poll_ready url (ticks d ep (Suc n) @ rest) c =
        poll_ready url (ticks d ep n @ (Tick (ticker_time d n) (ep (ticker_time d n)) # rest)) c"
    by (simp add: ticks_Suc)
  also have "\<dots> = (polls url d n @ fst (poll_ready url (Tick (ticker_time d n) (ep (ticker_time d n)) # rest) (c + n)),
                   snd (poll_ready url (Tick (ticker_time d n) (ep (ticker_time d n)) # rest) (c + n)))"
    using Suc.prems by (intro Suc.IH) simp
  also have "\<dots> = (polls url d (Suc n) @ fst (poll_ready url rest (c + Suc n)), snd (poll_ready url rest (c + Suc n)))"
    by (simp add: poll_ready_not_ready_step [OF nr] polls_Suc)
  finally show ?case .
qed

lemma ticks_add: "ticks d ep (n + m) = ticks d ep n @ map (\<lambda>k. Tick (ticker_time d k) (ep (ticker_time d k))) [n..<n + m]"
  unfolding ticks_def by (subst upt_add_eq_append) simp_all

lemma poll_ready_ok_step:
  "StatusCode r = StatusOK \<Longrightarrow> poll_ready url (Tick t (Some r, None) # es) c =
     ([ClientDo url t, DeferClose, Log Info ''ready-url is healthy'', TickerStop, DoneSend, DoneRecv]
        @ replicate (Suc c) BodyClose, Returned)"
  by simp

lemma poll_ready_until_ok:
  assumes "\<forall>k<n. not_ready (ep (ticker_time d k))"
    and "ep (ticker_time d n) = (Some r, None)" and "StatusCode r = StatusOK"
  shows "poll_ready url (ticks d ep (Suc n + m)) c =
     (polls url d n @ [ClientDo url (ticker_time d n), DeferClose, Log Info ''ready-url is healthy'',
        TickerStop, DoneSend, DoneRecv] @ replicate (Suc (c + n)) BodyClose, Returned)"
proof -
  have "ticks d ep (Suc n + m) = ticks d ep n @
      (Tick (ticker_time d n) (Some r, None) # map (\<lambda>k. Tick (ticker_time d k) (ep (ticker_time d k))) [Suc n..<Suc n + m])"
  proof -
    have "[n..<n + Suc m] = n # [Suc n..<Suc n + m]"
      by (subst upt_conv_Cons) simp_all
    then show ?thesis
      using ticks_add [of d ep n "Suc m"] assms(2) by simp
  qed
  then show ?thesis
    using poll_ready_ticks [OF assms(1)] poll_ready_ok_step [OF assms(3)] by simp
qed

lemma request_times_append: "request_times (xs @ ys) = request_times xs @ request_times ys"
  by (induction xs rule: request_times.induct) simp_all

lemma request_times_replicate: "request_times (replicate k BodyClose) = []"
  by (induction k) simp_all

lemma request_times_polls: "request_times (polls url d n) = map (ticker_time d) [0..<n]"
  by (induction n) (simp_all add: polls_Suc request_times_append polls_def)

lemma request_urls_append: "request_urls (xs @ ys) = request_urls xs @ request_urls ys"
  by (induction xs rule: request_urls.induct) simp_all

lemma request_urls_replicate: "request_urls (replicate k BodyClose) = []"
  by (induction k) simp_all

lemma poll_ready_request_times:
  assumes "tail = [] \<or> tail = [TermSignal]"
  shows "\<exists>m\<le>n. request_times (fst (poll_ready url
            (map (\<lambda>k. Tick (ticker_time d k) (ep (ticker_time d k))) [i..<i + n] @ tail) c))
          = map (ticker_time d) [i..<i + m]"
proof (induction n arbitrary: i c)
  case 0
  show ?case using assms by auto
next
  case (Suc n)
  let ?f = "\<lambda>k. Tick (ticker_time d k) (ep (ticker_time d k))"
  have split: "map ?f [i..<i + Suc n] @ tail = Tick (ticker_time d i) (ep (ticker_time d i)) # (map ?f [Suc i..<Suc i + n] @ tail)"
    by (subst upt_conv_Cons) simp_all
  obtain resp err where r: "ep (ticker_time d i) = (resp, err)" by (cases "ep (ticker_time d i)")
  from Suc.IH [of "Suc i" "Suc c"] obtain m where m: "m \<le> n"
    "request_times (fst (poll_ready url (map ?f [Suc i..<Suc i + n] @ tail) (Suc c))) = map (ticker_time d) [Suc i..<Suc i + m]"
    by blast
  have one: "[ticker_time d i] = map (ticker_time d) [i..<i + 1]" by simp
  have more: "ticker_time d i # map (ticker_time d) [Suc i..<Suc i + m] = map (ticker_time d) [i..<i + Suc m]"
    by (subst (2) upt_conv_Cons) simp_all
  show ?case
  proof (cases resp)
    case None
    then have "request_times (fst (poll_ready url (map ?f [i..<i + Suc n] @ tail) c)) = map (ticker_time d) [i..<i + 1]"
      unfolding split r by (simp add: request_times_append request_times_replicate)
    then show ?thesis by (intro exI [of _ 1]) simp
  next
    case (Some a)
    show ?thesis
    proof (cases "err \<noteq> None \<or> StatusCode a = StatusOK")
      case True
      then have "request_times (fst (poll_ready url (map ?f [i..<i + Suc n] @ tail) c)) = map (ticker_time d) [i..<i + 1]"
        unfolding split r Some by (auto simp: request_times_append request_times_replicate)
      then show ?thesis by (intro exI [of _ 1]) simp
    next
      case False
      then have "request_times (fst (poll_ready url (map ?f [i..<i + Suc n] @ tail) c)) = map (ticker_time d) [i..<i + Suc m]"
        unfolding split r Some using m(2) more by (simp add: case_prod_beta)
      then show ?thesis using m(1) by (intro exI [of _ "Suc m"]) simp
    qed
  qed
qed

lemma poll_ready_request_urls:
  "set (request_urls (fst (poll_ready url es c))) \<subseteq> {url}"
  by (induction url es c rule: poll_ready.induct)
     (auto simp: request_urls_append request_urls_replicate case_prod_beta split: option.splits if_splits)

lemma selects_shape:
  "\<exists>j\<le>n. \<exists>tail. (tail = [] \<or> tail = [TermSignal]) \<and>
     selects d ep term n = map (\<lambda>k. Tick (ticker_time d k) (ep (ticker_time d k))) [0..<j] @ tail"
proof (cases "term")
  case None
  then show ?thesis by (intro exI [of _ n] exI [of _ "[]"]) (simp add: selects_def ticks_def)
next
  case (Some a)
  show ?thesis
  proof (cases "a < n")
    case True
    then show ?thesis using Some
      by (intro exI [of _ a] exI [of _ "[TermSignal]"]) (simp add: selects_def ticks_def)
  next
    case False
    then show ?thesis using Some
      by (intro exI [of _ n] exI [of _ "[]"]) (simp add: selects_def ticks_def)
  qed
qed

lemma wait_ready_request_urls: "set (request_urls (fst (wait_ready url ep term n))) \<subseteq> {url}"
  using poll_ready_request_urls [of url "selects (500 * Millisecond) ep term n" 0]
  by (simp add: wait_ready_def ready_goroutine_def case_prod_beta)

lemma poll_ready_no_actor: "a \<in> set (fst (poll_ready url es c)) \<Longrightarrow> \<not> actor_action a"
  by (induction url es c arbitrary: a rule: poll_ready.induct)
     (auto simp: case_prod_beta split: option.splits if_splits)

lemma wait_ready_no_actor: "a \<in> set (fst (wait_ready url ep term n)) \<Longrightarrow> \<not> actor_action a"
  using poll_ready_no_actor [of a url "selects (500 * Millisecond) ep term n" 0]
  by (auto simp: wait_ready_def ready_goroutine_def case_prod_beta)

lemma poll_ready_returned_DoneRecv:
  "snd (poll_ready url es c) = Returned \<Longrightarrow> DoneRecv \<in> set (fst (poll_ready url es c))"
  by (induction url es c rule: poll_ready.induct)
     (auto simp: case_prod_beta split: option.splits if_splits)

lemma wait_ready_returned_DoneRecv:
  "snd (wait_ready url ep term n) = Returned \<Longrightarrow> DoneRecv \<in> set (fst (wait_ready url ep term n))"
  using poll_ready_returned_DoneRecv [of url "selects (500 * Millisecond) ep term n" 0]
  by (auto simp: wait_ready_def ready_goroutine_def case_prod_beta)

lemma poll_ready_blocked_append:
  "snd (poll_ready url es c) = Blocked \<Longrightarrow>
   poll_ready url (es @ rest) c =
     (fst (poll_ready url es c) @ fst (poll_ready url rest (c + length es)),
      snd (poll_ready url rest (c + length es)))"
  by (induction url es c rule: poll_ready.induct)
     (auto simp: case_prod_beta split: option.splits if_splits)

lemma wait_ready_request_times:
  "\<exists>m\<le>n. request_times (fst (wait_ready url ep term n)) = map (ticker_time (500 * Millisecond)) [0..<m]"
proof -
  obtain j tail where j: "j \<le> n" "tail = [] \<or> tail = [TermSignal]"
    "selects (500 * Millisecond) ep term n = map (\<lambda>k. Tick (ticker_time (500 * Millisecond) k) (ep (ticker_time (500 * Millisecond) k))) [0..<j] @ tail"
    using selects_shape [of n "500 * Millisecond" ep "term"] by (elim exE conjE)
  have "\<exists>m\<le>j. request_times (fst (poll_ready url (selects (500 * Millisecond) ep term n) 0))
          = map (ticker_time (500 * Millisecond)) [0..<m]"
    using poll_ready_request_times [OF j(2), of j url "500 * Millisecond" ep 0 0] by (simp add: j(3))
  then obtain m where m: "m \<le> j"
    "request_times (fst (poll_ready url (selects (500 * Millisecond) ep term n) 0)) = map (ticker_time (500 * Millisecond)) [0..<m]"
    by (elim exE conjE)
  have "request_times (fst (wait_ready url ep term n)) = request_times (fst (poll_ready url (selects (500 * Millisecond) ep term n) 0))"
    by (simp add: wait_ready_def ready_goroutine_def case_prod_beta)
  with m j(1) show ?thesis
    by (intro exI [of _ m]) simp
qed

lemma request_urls_polls: "request_urls (polls url d n) = replicate n url"
  by (induction n) (simp_all add: polls_Suc request_urls_append polls_def replicate_append_same)

lemma filter_log_polls: "filter is_log (polls url d n) = []"
  by (induction n) (simp_all add: polls_Suc polls_def)

lemma wait_ready_polling:
  assumes "\<forall>k<n. not_ready (ep (ticker_time (500 * Millisecond) k))"
  shows "wait_ready url ep None n =
     (NewTicker (500 * Millisecond) # Log Info ''ensure ready-url is healthy'' # polls url (500 * Millisecond) n, Blocked)"
  using poll_ready_ticks [OF assms, of url "[]" 0]
  by (simp add: wait_ready_def ready_goroutine_def selects_def)

lemma wait_ready_until_ok:
  assumes "\<forall>k<n. not_ready (ep (ticker_time (500 * Millisecond) k))"
    and "ep (ticker_time (500 * Millisecond) n) = (Some r, None)" and "StatusCode r = StatusOK"
  shows "wait_ready url ep None (Suc n + m) =
     (NewTicker (500 * Millisecond) # Log Info ''ensure ready-url is healthy'' # polls url (500 * Millisecond) n
        @ [ClientDo url (ticker_time (500 * Millisecond) n), DeferClose, Log Info ''ready-url is healthy'',
           TickerStop, DoneSend, DoneRecv] @ replicate (Suc n) BodyClose, Returned)"
  using poll_ready_until_ok [OF assms, of url m 0]
  by (simp add: wait_ready_def ready_goroutine_def selects_def)

lemma wait_ready_request_times_eq:
  "request_times (fst (wait_ready url ep term n)) =
     map (ticker_time (500 * Millisecond)) [0..<length (request_times (fst (wait_ready url ep term n)))]"
proof -
  obtain m where "request_times (fst (wait_ready url ep term n)) = map (ticker_time (500 * Millisecond)) [0..<m]"
    using wait_ready_request_times [of n url ep "term"] by (elim exE conjE)
  then show ?thesis by simp
qed

lemma ticker_time_500: "ticker_time (500 * Millisecond) = (\<lambda>k. (int k + 1) * 500000000)"
  by (rule ext) (simp add: ticker_time_def Millisecond_def)

lemma wait_ready_term:
  assumes "j < n" and "snd (wait_ready url ep None j) = Blocked"
  shows "wait_ready url ep (Some j) n =
     (fst (wait_ready url ep None j) @ [Log Info ''received SIGTERM, exiting gracefully...'', OsExit 0],
      Exited 0)"
proof -
  have b: "snd (poll_ready url (ticks (500 * Millisecond) ep j) 0) = Blocked"
    using assms(2) by (simp add: wait_ready_def ready_goroutine_def selects_def case_prod_beta)
  show ?thesis
    using assms(1) poll_ready_blocked_append [OF b, of "[TermSignal]"]
    by (simp add: wait_ready_def ready_goroutine_def selects_def case_prod_beta)
qed

lemma supervise_exit:
  "exit_status (snd (supervise fl r)) =
     (case r of None \<Rightarrow> None | Some None \<Rightarrow> Some 0 | Some (Some e) \<Rightarrow> Some 1)"
  by (simp add: supervise_def Let_def split: option.splits)

lemma supervise_GroupRun: "GroupRun \<in> set (fst (supervise fl r))"
  by (simp add: supervise_def Let_def split: option.splits)

lemma main_setup_ok:
  assumes "flag_Parse (args env) flag_defaults = Inr fl"
    and "url_Parse env (reloadURLStr fl) = None"
    and "http_NewRequest env (readyURLStr fl) = None"
  shows "main env =
     (let w = wait_ready (readyURLStr fl) (ready_endpoint env) (term_iteration env) (iterations env)
      in if snd w = Returned
         then ([MustRegister, SignalNotify] @ fst w @ fst (supervise fl (group_Run env)),
               snd (supervise fl (group_Run env)))
         else ([MustRegister, SignalNotify] @ fst w, snd w))"
  using assms by (simp add: main_def case_prod_beta Let_def)

lemma main_url_error:
  assumes "flag_Parse (args env) flag_defaults = Inr fl"
    and "url_Parse env (reloadURLStr fl) = Some e"
  shows "main env = ([MustRegister, Log Error ''parsing reloader URL failed'', OsExit 1], Exited 1)"
  using assms by (simp add: main_def)

lemma main_request_error:
  assumes "flag_Parse (args env) flag_defaults = Inr fl"
    and "url_Parse env (reloadURLStr fl) = None"
    and "http_NewRequest env (readyURLStr fl) = Some e"
  shows "main env =
     ([MustRegister, SignalNotify, Log Error ''creating request'', OsExit 1], Exited 1)"
  using assms by (simp add: main_def)

lemma main_parse_error:
  assumes "flag_Parse (args env) flag_defaults = Inl e"
  shows "main env = (if e = flag_ErrHelp then ([OsExit 0], Exited 0) else ([OsExit 2], Exited 2))"
  using assms by (simp add: main_def)

lemma nth_after_prefix:
  assumes "\<forall>a \<in> set A. \<not> P a" and "x \<in> set A" and "i < length (A @ B)" and "P ((A @ B) ! i)"
  shows "\<exists>j<i. (A @ B) ! j = x"
proof -
  have "\<not> i < length A"
  proof
    assume "i < length A"
    then have "(A @ B) ! i \<in> set A" by (simp add: nth_append)
    with assms(1,4) show False by blast
  qed
  moreover obtain j where "j < length A" "A ! j = x"
    using assms(2) by (auto simp: in_set_conv_nth)
  ultimately show ?thesis
    by (intro exI [of _ j]) (simp add: nth_append)
qed

lemma flag_set_fields:
  "flag_set name v fl0 = Inr fl \<Longrightarrow>
     watchedDirs fl = watchedDirs fl0 @ (if name = ''watched-dir'' then [v] else [])
     \<and> (name \<noteq> ''reload-url'' \<longrightarrow> reloadURLStr fl = reloadURLStr fl0)
     \<and> (name \<noteq> ''ready-url'' \<longrightarrow> readyURLStr fl = readyURLStr fl0)
     \<and> (name \<noteq> ''listen-address'' \<longrightarrow> listenAddress fl = listenAddress fl0)"
  by (auto simp: flag_set_def stringSlice_Set_def split: if_splits)

lemma flag_Parse_fields:
  "flag_Parse as fl0 = Inr fl \<Longrightarrow>
     watchedDirs fl = watchedDirs fl0 @ map snd (filter (\<lambda>a. fst a = ''watched-dir'') as)
     \<and> (''reload-url'' \<notin> fst ` set as \<longrightarrow> reloadURLStr fl = reloadURLStr fl0)
     \<and> (''ready-url'' \<notin> fst ` set as \<longrightarrow> readyURLStr fl = readyURLStr fl0)
     \<and> (''listen-address'' \<notin> fst ` set as \<longrightarrow> listenAddress fl = listenAddress fl0)"
proof (induction as fl0 rule: flag_Parse.induct)
  case (1 fl0)
  then show ?case by simp
next
  case (2 name v as fl0)
  from "2.prems" obtain fl1 where s: "flag_set name v fl0 = Inr fl1" and p: "flag_Parse as fl1 = Inr fl"
    by (auto split: sum.splits)
  from "2.IH" [OF s p] flag_set_fields [OF s] show ?case
    by (auto split: if_splits)
qed

text \<open>The same facts for the gate with the time that requests take.\<close>

lemma polls_at_Suc: "polls_at url tm (Suc n) = polls_at url tm n @ [ClientDo url (tm n), DeferClose]"
  by (simp add: polls_at_def)

lemma poll_ready_ticks_at:
  "\<forall>k<n. not_ready (ep (tm k)) \<Longrightarrow>
   poll_ready url (map (\<lambda>k. Tick (tm k) (ep (tm k))) [0..<n] @ rest) c =
     (polls_at url tm n @ fst (poll_ready url rest (c + n)), snd (poll_ready url rest (c + n)))"
proof (induction n arbitrary: rest)
  case 0
  then show ?case by (simp add: polls_at_def)
next
  case (Suc n)
  have nr: "not_ready (ep (tm n))" using Suc.prems by simp
  have "poll_ready url (map (\<lambda>k. Tick (tm k) (ep (tm k))) [0..<Suc n] @ rest) c =
        poll_ready url (map (\<lambda>k. Tick (tm k) (ep (tm k))) [0..<n] @ (Tick (tm n) (ep (tm n)) # rest)) c"
    by simp
  also have "\<dots> = (polls_at url tm n @ fst (poll_ready url (Tick (tm n) (ep (tm n)) # rest) (c + n)),
                   snd (poll_ready url (Tick (tm n) (ep (tm n)) # rest) (c + n)))"
    using Suc.prems by (intro Suc.IH) simp
  also have "\<dots> = (polls_at url tm (Suc n) @ fst (poll_ready url rest (c + Suc n)), snd (poll_ready url rest (c + Suc n)))"
    by (simp add: poll_ready_not_ready_step [OF nr] polls_at_Suc)
  finally show ?case .
qed

lemma poll_ready_until_ok_at:
  assumes "\<forall>k<n. not_ready (ep (tm k))"
    and "ep (tm n) = (Some r, None)" and "StatusCode r = StatusOK"
  shows "poll_ready url (map (\<lambda>k. Tick (tm k) (ep (tm k))) [0..<Suc n + m]) c =
     (polls_at url tm n @ [ClientDo url (tm n), DeferClose, Log Info ''ready-url is healthy'',
        TickerStop, DoneSend, DoneRecv] @ replicate (Suc (c + n)) BodyClose, Returned)"
proof -
  have "[0..<Suc n + m] = [0..<n] @ n # [Suc n..<Suc n + m]"
    using upt_add_eq_append [of 0 n "Suc m"] by (simp add: upt_conv_Cons del: upt_Suc)
  then have "map (\<lambda>k. Tick (tm k) (ep (tm k))) [0..<Suc n + m] = map (\<lambda>k. Tick (tm k) (ep (tm k))) [0..<n] @
      (Tick (tm n) (Some r, None) # map (\<lambda>k. Tick (tm k) (ep (tm k))) [Suc n..<Suc n + m])"
    using assms(2) by simp
  then show ?thesis
    using poll_ready_ticks_at [OF assms(1)] poll_ready_ok_step [OF assms(3)] by simp
qed

lemma request_times_polls_at: "request_times (polls_at url tm n) = map tm [0..<n]"
  by (induction n) (simp_all add: polls_at_Suc request_times_append polls_at_def)

lemma request_urls_polls_at: "request_urls (polls_at url tm n) = replicate n url"
  by (induction n) (simp_all add: polls_at_Suc request_urls_append polls_at_def replicate_append_same)

lemma filter_log_polls_at: "filter is_log (polls_at url tm n) = []"
  by (induction n) (simp_all add: polls_at_Suc polls_at_def)

lemma poll_ready_request_times_at:
  assumes "tail = [] \<or> tail = [TermSignal]"
  shows "\<exists>m\<le>n. request_times (fst (poll_ready url
            (map (\<lambda>k. Tick (tm k) (ep (tm k))) [i..<i + n] @ tail) c))
          = map (tm) [i..<i + m]"
proof (induction n arbitrary: i c)
  case 0
  show ?case using assms by auto
next
  case (Suc n)
  let ?f = "\<lambda>k. Tick (tm k) (ep (tm k))"
  have split: "map ?f [i..<i + Suc n] @ tail = Tick (tm i) (ep (tm i)) # (map ?f [Suc i..<Suc i + n] @ tail)"
    by (subst upt_conv_Cons) simp_all
  obtain resp err where r: "ep (tm i) = (resp, err)" by (cases "ep (tm i)")
  from Suc.IH [of "Suc i" "Suc c"] obtain m where m: "m \<le> n"
    "request_times (fst (poll_ready url (map ?f [Suc i..<Suc i + n] @ tail) (Suc c))) = map (tm) [Suc i..<Suc i + m]"
    by blast
  have one: "[tm i] = map (tm) [i..<i + 1]" by simp
  have more: "tm i # map (tm) [Suc i..<Suc i + m] = map (tm) [i..<i + Suc m]"
    by (subst (2) upt_conv_Cons) simp_all
  show ?case
  proof (cases resp)
    case None
    then have "request_times (fst (poll_ready url (map ?f [i..<i + Suc n] @ tail) c)) = map (tm) [i..<i + 1]"
      unfolding split r by (simp add: request_times_append request_times_replicate)
    then show ?thesis by (intro exI [of _ 1]) simp
  next
    case (Some a)
    show ?thesis
    proof (cases "err \<noteq> None \<or> StatusCode a = StatusOK")
      case True
      then have "request_times (fst (poll_ready url (map ?f [i..<i + Suc n] @ tail) c)) = map (tm) [i..<i + 1]"
        unfolding split r Some by (auto simp: request_times_append request_times_replicate)
      then show ?thesis by (intro exI [of _ 1]) simp
    next
      case False
      then have "request_times (fst (poll_ready url (map ?f [i..<i + Suc n] @ tail) c)) = map (tm) [i..<i + Suc m]"
        unfolding split r Some using m(2) more by (simp add: case_prod_beta)
      then show ?thesis using m(1) by (intro exI [of _ "Suc m"]) simp
    qed
  qed
qed

lemma selects_latency_shape:
  "\<exists>j\<le>n. \<exists>tail. (tail = [] \<or> tail = [TermSignal]) \<and>
     selects_latency d ep lat term n =
       map (\<lambda>k. Tick (request_time d lat k) (ep (request_time d lat k))) [0..<j] @ tail"
proof (cases "term")
  case None
  then show ?thesis
    by (intro exI [of _ n] exI [of _ "[]"]) (simp add: selects_latency_def ticks_latency_def)
next
  case (Some a)
  show ?thesis
  proof (cases "a < n")
    case True
    then show ?thesis using Some
      by (intro exI [of _ a] exI [of _ "[TermSignal]"]) (simp add: selects_latency_def ticks_latency_def)
  next
    case False
    then show ?thesis using Some
      by (intro exI [of _ n] exI [of _ "[]"]) (simp add: selects_latency_def ticks_latency_def)
  qed
qed

lemma wait_ready_latency_request_times:
  "\<exists>m\<le>n. request_times (fst (wait_ready_latency url ep lat term n)) =
      map (request_time (500 * Millisecond) lat) [0..<m]"
proof -
  obtain j tail where j: "j \<le> n" "tail = [] \<or> tail = [TermSignal]"
    "selects_latency (500 * Millisecond) ep lat term n =
       map (\<lambda>k. Tick (request_time (500 * Millisecond) lat k) (ep (request_time (500 * Millisecond) lat k))) [0..<j] @ tail"
    using selects_latency_shape [of n "500 * Millisecond" ep lat "term"] by (elim exE conjE)
  have "\<exists>m\<le>j. request_times (fst (poll_ready url (selects_latency (500 * Millisecond) ep lat term n) 0))
          = map (request_time (500 * Millisecond) lat) [0..<m]"
    using poll_ready_request_times_at [OF j(2), of j url "request_time (500 * Millisecond) lat" ep 0 0]
    by (simp add: j(3))
  then obtain m where m: "m \<le> j"
    "request_times (fst (poll_ready url (selects_latency (500 * Millisecond) ep lat term n) 0)) =
       map (request_time (500 * Millisecond) lat) [0..<m]"
    by (elim exE conjE)
  have "request_times (fst (wait_ready_latency url ep lat term n)) =
        request_times (fst (poll_ready url (selects_latency (500 * Millisecond) ep lat term n) 0))"
    by (simp add: wait_ready_latency_def ready_goroutine_def case_prod_beta)
  with m j(1) show ?thesis
    by (intro exI [of _ m]) simp
qed

lemma wait_ready_latency_request_times_eq:
  "request_times (fst (wait_ready_latency url ep lat term n)) =
     map (request_time (500 * Millisecond) lat)
       [0..<length (request_times (fst (wait_ready_latency url ep lat term n)))]"
proof -
  obtain m where "request_times (fst (wait_ready_latency url ep lat term n)) =
      map (request_time (500 * Millisecond) lat) [0..<m]"
    using wait_ready_latency_request_times [of n url ep lat "term"] by (elim exE conjE)
  then show ?thesis by simp
qed

lemma wait_ready_latency_request_urls:
  "set (request_urls (fst (wait_ready_latency url ep lat term n))) \<subseteq> {url}"
  using poll_ready_request_urls [of url "selects_latency (500 * Millisecond) ep lat term n" 0]
  by (simp add: wait_ready_latency_def ready_goroutine_def case_prod_beta)

lemma wait_ready_latency_polling:
  assumes "\<forall>k<n. not_ready (ep (request_time (500 * Millisecond) lat k))"
  shows "wait_ready_latency url ep lat None n =
     (NewTicker (500 * Millisecond) # Log Info ''ensure ready-url is healthy''
        # polls_at url (request_time (500 * Millisecond) lat) n, Blocked)"
  using poll_ready_ticks_at [OF assms, of url "[]" 0]
  by (simp add: wait_ready_latency_def ready_goroutine_def selects_latency_def ticks_latency_def)

lemma wait_ready_latency_until_ok:
  assumes "\<forall>k<n. not_ready (ep (request_time (500 * Millisecond) lat k))"
    and "ep (request_time (500 * Millisecond) lat n) = (Some r, None)" and "StatusCode r = StatusOK"
  shows "wait_ready_latency url ep lat None (Suc n + m) =
     (NewTicker (500 * Millisecond) # Log Info ''ensure ready-url is healthy''
        # polls_at url (request_time (500 * Millisecond) lat) n
        @ [ClientDo url (request_time (500 * Millisecond) lat n), DeferClose,
           Log Info ''ready-url is healthy'', TickerStop, DoneSend, DoneRecv]
        @ replicate (Suc n) BodyClose, Returned)"
  using poll_ready_until_ok_at [OF assms, of url m 0]
  by (simp add: wait_ready_latency_def ready_goroutine_def selects_latency_def ticks_latency_def)

lemma next_tick_ticker_time: "0 < d \<Longrightarrow> next_tick d (ticker_time d k) = ticker_time d (Suc k)"
  by (simp add: next_tick_def ticker_time_def algebra_simps)

lemma request_time_on_time:
  assumes "0 < d" and "\<forall>t. latency t \<le> d"
  shows "request_time d latency k = ticker_time d k"
proof (induction k)
  case 0
  show ?case by (simp add: ticker_time_def)
next
  case (Suc k)
  have "ticker_time d k + latency (ticker_time d k) \<le> ticker_time d (Suc k)"
    using assms(2) [rule_format, of "ticker_time d k"] by (simp add: ticker_time_def algebra_simps)
  then show ?case
    using Suc next_tick_ticker_time [OF assms(1), of k] by (simp add: Let_def)
qed

lemma wait_ready_latency_on_time:
  assumes "\<forall>t. latency t \<le> 500 * Millisecond"
  shows "wait_ready_latency url ep latency term n = wait_ready url ep term n"
proof -
  have "request_time (500 * Millisecond) latency = ticker_time (500 * Millisecond)"
    using request_time_on_time [OF _ assms] by (intro ext) (simp add: Millisecond_def)
  then have "ticks_latency (500 * Millisecond) ep latency = ticks (500 * Millisecond) ep"
    by (intro ext) (simp add: ticks_latency_def ticks_def)
  then have "selects_latency (500 * Millisecond) ep latency term n = selects (500 * Millisecond) ep term n"
    by (cases "term") (simp_all add: selects_latency_def selects_def)
  then show ?thesis
    by (simp add: wait_ready_latency_def wait_ready_def)
qed

section \<open>Theorems\<close>

text \<open>
  C2 as stated fails. With an endpoint whose answers (503) take 700 ms each, the requests
  of the gate are sent at 500 ms, 1200 ms, 1900 ms and 2600 ms: the first tick that fires
  during a request is received as soon as the request has ended. The second request
  follows the first after 700 ms, not after 500 ms.
\<close>

theorem fixed_interval_counterexample:
  "request_times (fst (wait_ready_latency ''http://127.0.0.1:19090/-/ready''
       answers_503 latency_700ms None 4))
     = [500000000, 1200000000, 1900000000, 2600000000]
   \<and> snd (wait_ready_latency ''http://127.0.0.1:19090/-/ready''
       answers_503 latency_700ms None 4) = Blocked
   \<and> \<not> (request_times (fst (wait_ready_latency ''http://127.0.0.1:19090/-/ready''
             answers_503 latency_700ms None 4)) ! 1
        - request_times (fst (wait_ready_latency ''http://127.0.0.1:19090/-/ready''
             answers_503 latency_700ms None 4)) ! 0
        = 500 * Millisecond)"
  by code_simp

text \<open>
  C2, amended. The ticker of the readiness gate has a period of 500 ms, and requests are
  sent only on its ticks, to the readiness URL: request number \<open>k\<close> (from 0) at
  \<open>request_time (500 ms) latency k\<close>, the first at 500 ms and each further one at the end
  of the request before it or at the first tick after that request was sent, whichever is
  later. When every request is answered within 500 ms, request number \<open>k\<close> is sent at
  \<open>(k + 1) * 500\<close> ms, a fixed interval of 500 ms, and the gate is \<open>wait_ready\<close>. As long as every request is answered with a
  status other than 200, the gate stays in its loop (for any number \<open>n\<close> of such
  answers): it has sent \<open>n\<close> requests and has logged nothing for them. When the next
  request is answered with status 200, the gate logs that the endpoint is healthy, stops
  the ticker, sends on \<^verbatim>\<open>done\<close> and returns: main goes on.
\<close>

theorem readiness_gate_polling:
  assumes "\<forall>k<n. not_ready (endpoint (request_time (500 * Millisecond) latency k))"
  shows "wait_ready_latency url endpoint latency None n =
           (NewTicker (500 * Millisecond) # Log Info ''ensure ready-url is healthy''
              # polls_at url (request_time (500 * Millisecond) latency) n, Blocked)
       \<and> (\<forall>r m. endpoint (request_time (500 * Millisecond) latency n) = (Some r, None)
                 \<and> StatusCode r = 200 \<longrightarrow>
            wait_ready_latency url endpoint latency None (Suc n + m) =
              (NewTicker (500 * Millisecond) # Log Info ''ensure ready-url is healthy''
                 # polls_at url (request_time (500 * Millisecond) latency) n
                 @ [ClientDo url (request_time (500 * Millisecond) latency n), DeferClose,
                    Log Info ''ready-url is healthy'', TickerStop, DoneSend, DoneRecv]
                 @ replicate (Suc n) BodyClose, Returned))
       \<and> request_times (polls_at url (request_time (500 * Millisecond) latency) n)
           = map (request_time (500 * Millisecond) latency) [0..<n]
       \<and> request_urls (polls_at url (request_time (500 * Millisecond) latency) n) = replicate n url
       \<and> filter is_log (polls_at url (request_time (500 * Millisecond) latency) n) = []
       \<and> ((\<forall>t. latency t \<le> 500 * Millisecond) \<longrightarrow>
            (\<forall>k. request_time (500 * Millisecond) latency k = (int k + 1) * 500000000))
       \<and> request_times (fst (wait_ready_latency url' endpoint' latency' term' n')) =
           map (request_time (500 * Millisecond) latency')
             [0..<length (request_times (fst (wait_ready_latency url' endpoint' latency' term' n')))]
       \<and> set (request_urls (fst (wait_ready_latency url' endpoint' latency' term' n'))) \<subseteq> {url'}
       \<and> ((\<forall>t. latency' t \<le> 500 * Millisecond) \<longrightarrow>
            wait_ready_latency url' endpoint' latency' term' n' = wait_ready url' endpoint' term' n')
       \<and> request_time (500 * Millisecond) latency' 0 = 500000000
       \<and> request_time (500 * Millisecond) latency' (Suc k') =
           max (request_time (500 * Millisecond) latency' k'
                  + latency' (request_time (500 * Millisecond) latency' k'))
               (next_tick (500 * Millisecond) (request_time (500 * Millisecond) latency' k'))"
proof -
  have i: "request_time (500 * Millisecond) latency' 0 = 500000000"
    by (simp add: Millisecond_def)
  have j: "request_time (500 * Millisecond) latency' (Suc k') =
           max (request_time (500 * Millisecond) latency' k'
                  + latency' (request_time (500 * Millisecond) latency' k'))
               (next_tick (500 * Millisecond) (request_time (500 * Millisecond) latency' k'))"
    by (simp add: Let_def)
  have c: "\<forall>r m. endpoint (request_time (500 * Millisecond) latency n) = (Some r, None)
                 \<and> StatusCode r = 200 \<longrightarrow>
            wait_ready_latency url endpoint latency None (Suc n + m) =
              (NewTicker (500 * Millisecond) # Log Info ''ensure ready-url is healthy''
                 # polls_at url (request_time (500 * Millisecond) latency) n
                 @ [ClientDo url (request_time (500 * Millisecond) latency n), DeferClose,
                    Log Info ''ready-url is healthy'', TickerStop, DoneSend, DoneRecv]
                 @ replicate (Suc n) BodyClose, Returned)"
    using wait_ready_latency_until_ok [OF assms] by (simp add: StatusOK_def)
  have d: "(\<forall>t. latency t \<le> 500 * Millisecond) \<longrightarrow>
            (\<forall>k. request_time (500 * Millisecond) latency k = (int k + 1) * 500000000)"
  proof (intro impI allI)
    fix k
    assume "\<forall>t. latency t \<le> 500 * Millisecond"
    then have "request_time (500 * Millisecond) latency k = ticker_time (500 * Millisecond) k"
      by (intro request_time_on_time) (simp_all add: Millisecond_def)
    then show "request_time (500 * Millisecond) latency k = (int k + 1) * 500000000"
      by (simp add: ticker_time_500)
  qed
  have e: "(\<forall>t. latency' t \<le> 500 * Millisecond) \<longrightarrow>
            wait_ready_latency url' endpoint' latency' term' n' = wait_ready url' endpoint' term' n'"
    using wait_ready_latency_on_time [of latency' url' endpoint' term' n'] by (intro impI)
  have f: "request_times (fst (wait_ready_latency url' endpoint' latency' term' n')) =
           map (request_time (500 * Millisecond) latency')
             [0..<length (request_times (fst (wait_ready_latency url' endpoint' latency' term' n')))]"
    by (rule wait_ready_latency_request_times_eq)
  have g: "set (request_urls (fst (wait_ready_latency url' endpoint' latency' term' n'))) \<subseteq> {url'}"
    by (rule wait_ready_latency_request_urls)
  have a: "wait_ready_latency url endpoint latency None n =
           (NewTicker (500 * Millisecond) # Log Info ''ensure ready-url is healthy''
              # polls_at url (request_time (500 * Millisecond) latency) n, Blocked)"
    by (rule wait_ready_latency_polling [OF assms])
  show ?thesis
    by (intro conjI a c d e f g i j request_times_polls_at request_urls_polls_at
          filter_log_polls_at)
qed

text \<open>
  An endpoint that answers 404 before 2 s and 200 from then on, each answer taking
  120 ms: the gate is still polling after three ticks and is ready at the fourth, sent at
  2 s.
\<close>

theorem readiness_gate_polling_witness:
  "not_ready ((\<lambda>t. if t < 2000000000 then (Some \<lparr>StatusCode = 404\<rparr>, None)
                     else (Some \<lparr>StatusCode = 200\<rparr>, None))
              (request_time (500 * Millisecond) (\<lambda>t. 120 * Millisecond) 2))
   \<and> snd (wait_ready_latency ''http://127.0.0.1:19090/-/ready''
             (\<lambda>t. if t < 2000000000 then (Some \<lparr>StatusCode = 404\<rparr>, None)
                   else (Some \<lparr>StatusCode = 200\<rparr>, None))
             (\<lambda>t. 120 * Millisecond) None 3) = Blocked
   \<and> snd (wait_ready_latency ''http://127.0.0.1:19090/-/ready''
             (\<lambda>t. if t < 2000000000 then (Some \<lparr>StatusCode = 404\<rparr>, None)
                   else (Some \<lparr>StatusCode = 200\<rparr>, None))
             (\<lambda>t. 120 * Millisecond) None (Suc 3 + 0)) = Returned
   \<and> request_time (500 * Millisecond) (\<lambda>t. 120 * Millisecond) 3 = (int 3 + 1) * 500000000"
proof -
  let ?E = "\<lambda>t::duration. if t < 2000000000 then (Some \<lparr>StatusCode = 404\<rparr>, None)
                   else (Some \<lparr>StatusCode = 200\<rparr>, None)"
  let ?L = "\<lambda>t::duration. 120 * Millisecond"
  let ?U = "''http://127.0.0.1:19090/-/ready''"
  have l: "\<forall>t. ?L t \<le> 500 * Millisecond"
    by (simp add: Millisecond_def)
  have r: "request_time (500 * Millisecond) ?L k = (int k + 1) * 500000000" for k
    using request_time_on_time [of "500 * Millisecond" ?L k] l
    by (simp add: Millisecond_def ticker_time_def)
  have h: "\<forall>k<3. not_ready (?E (request_time (500 * Millisecond) ?L k))"
    by (auto simp: r StatusOK_def)
  have e: "?E (request_time (500 * Millisecond) ?L 3) = (Some \<lparr>StatusCode = 200\<rparr>, None)
           \<and> StatusCode \<lparr>StatusCode = 200\<rparr> = 200"
    by (simp add: r)
  note t = readiness_gate_polling [OF h, of ?U]
  from t have b: "snd (wait_ready_latency ?U ?E ?L None 3) = Blocked"
    by simp
  from t have "\<forall>r m. ?E (request_time (500 * Millisecond) ?L 3) = (Some r, None) \<and> StatusCode r = 200 \<longrightarrow>
       snd (wait_ready_latency ?U ?E ?L None (Suc 3 + m)) = Returned"
    by simp
  with e have c: "snd (wait_ready_latency ?U ?E ?L None (Suc 3 + 0)) = Returned"
    by blast
  from t l have "\<forall>k. request_time (500 * Millisecond) ?L k = (int k + 1) * 500000000"
    by blast
  then have d: "request_time (500 * Millisecond) ?L 3 = (int 3 + 1) * 500000000"
    by blast
  from h have "not_ready (?E (request_time (500 * Millisecond) ?L 2))" by simp
  with b c d show ?thesis by blast
qed

text \<open>
  C3 (what the code does). When \<^verbatim>\<open>Do\<close> returns a nil response and an error, the
  iteration dereferences the nil response in the defer statement of line 95 and panics:
  the error check of line 96 is not reached, the error is not logged and
  \<^verbatim>\<open>os.Exit(1)\<close> is not called; the closes deferred by earlier iterations run. With a connection refused at the first tick the whole
  program ends in the panic after one request, with the run time's exit status 2.
\<close>

theorem transport_error_panics:
  "poll_ready url (Tick t (None, Some e) # es) n
     = ([ClientDo url t, NilDereference] @ replicate n BodyClose, Panicked)
   \<and> main (quiet_env\<lparr>ready_endpoint :=
               (\<lambda>t. (None, Some ''dial tcp 127.0.0.1:19090: connect: connection refused''))\<rparr>)
       = ([MustRegister, SignalNotify, NewTicker (500 * Millisecond),
           Log Info ''ensure ready-url is healthy'',
           ClientDo ''http://127.0.0.1:19090/-/ready'' (500 * Millisecond), NilDereference],
          Panicked)
   \<and> exit_status Panicked = Some 2"
proof -
  have "main (quiet_env\<lparr>ready_endpoint :=
               (\<lambda>t. (None, Some ''dial tcp 127.0.0.1:19090: connect: connection refused''))\<rparr>)
       = ([MustRegister, SignalNotify, NewTicker (500 * Millisecond),
           Log Info ''ensure ready-url is healthy'',
           ClientDo ''http://127.0.0.1:19090/-/ready'' (500 * Millisecond), NilDereference],
          Panicked)"
    by code_simp
  then show ?thesis by simp
qed

text \<open>
  C4 as stated fails. With an endpoint that answers 503 before 1.5 s and 200 from 1.5 s
  on, the gate is ready with the request of 1.5 s, but its requests are those of 0.5 s,
  1.0 s and 1.5 s: it is not the case that three requests precede the one of 1.5 s.
\<close>

theorem ready_at_1500ms_counterexample:
  "snd (wait_ready ''http://127.0.0.1:19090/-/ready''
          (endpoint_503_until (1500 * Millisecond)) None 10) = Returned
   \<and> request_times (fst (wait_ready ''http://127.0.0.1:19090/-/ready''
          (endpoint_503_until (1500 * Millisecond)) None 10))
       = [500000000, 1000000000, 1500000000]
   \<and> \<not> (snd (wait_ready ''http://127.0.0.1:19090/-/ready''
              (endpoint_503_until (1500 * Millisecond)) None 10) = Returned
      \<and> last (request_times (fst (wait_ready ''http://127.0.0.1:19090/-/ready''
              (endpoint_503_until (1500 * Millisecond)) None 10))) = 1500 * Millisecond
      \<and> length (butlast (request_times (fst (wait_ready ''http://127.0.0.1:19090/-/ready''
              (endpoint_503_until (1500 * Millisecond)) None 10)))) = 3)"
  by code_simp

text \<open>
  C4, amended. If the endpoint answers every request sent before 1.5 s with a status
  other than 200 and answers 200 at 1.5 s, then the gate, observed for at least three
  ticks, is ready with the request of 1.5 s, after exactly two unsuccessful requests,
  sent at 0.5 s and at 1.0 s.
\<close>

theorem ready_after_two_failed_polls:
  assumes "\<forall>t. 0 < t \<and> t < 1500 * Millisecond \<longrightarrow> not_ready (endpoint t)"
    and "endpoint (1500 * Millisecond) = (Some r, None)"
    and "StatusCode r = 200"
    and "3 \<le> n"
  shows "snd (wait_ready url endpoint None n) = Returned
     \<and> request_times (fst (wait_ready url endpoint None n))
         = [500 * Millisecond, 1000 * Millisecond, 1500 * Millisecond]
     \<and> length (butlast (request_times (fst (wait_ready url endpoint None n)))) = 2"
proof -
  have t: "ticker_time (500 * Millisecond) 0 = 500 * Millisecond"
    "ticker_time (500 * Millisecond) (Suc 0) = 1000 * Millisecond"
    "ticker_time (500 * Millisecond) (Suc (Suc 0)) = 1500 * Millisecond"
    by (simp_all add: ticker_time_def)
  have "\<forall>k<Suc (Suc 0). not_ready (endpoint (ticker_time (500 * Millisecond) k))"
    using assms(1) t by (auto simp: less_Suc_eq Millisecond_def)
  moreover have "endpoint (ticker_time (500 * Millisecond) (Suc (Suc 0))) = (Some r, None)"
    using assms(2) t by simp
  moreover have "StatusCode r = StatusOK" using assms(3) by (simp add: StatusOK_def)
  ultimately have w: "wait_ready url endpoint None (Suc (Suc (Suc 0)) + (n - 3)) =
     (NewTicker (500 * Millisecond) # Log Info ''ensure ready-url is healthy'' # polls url (500 * Millisecond) (Suc (Suc 0))
        @ [ClientDo url (ticker_time (500 * Millisecond) (Suc (Suc 0))), DeferClose, Log Info ''ready-url is healthy'',
           TickerStop, DoneSend, DoneRecv] @ replicate (Suc (Suc (Suc 0))) BodyClose, Returned)"
    by (rule wait_ready_until_ok)
  have n: "Suc (Suc (Suc 0)) + (n - 3) = n" using assms(4) by simp
  show ?thesis
    using w unfolding n by (simp add: polls_def t)
qed

text \<open>
  The endpoint of the scenario satisfies the hypotheses, and the gate sends its three
  requests at 0.5 s, 1.0 s and 1.5 s.
\<close>

theorem ready_after_two_failed_polls_witness:
  "not_ready (endpoint_503_until (1500 * Millisecond) (1000 * Millisecond))
   \<and> endpoint_503_until (1500 * Millisecond) (1500 * Millisecond) = (Some \<lparr>StatusCode = 200\<rparr>, None)
   \<and> snd (wait_ready ''http://127.0.0.1:19090/-/ready''
              (endpoint_503_until (1500 * Millisecond)) None 10) = Returned
   \<and> request_times (fst (wait_ready ''http://127.0.0.1:19090/-/ready''
              (endpoint_503_until (1500 * Millisecond)) None 10))
         = [500 * Millisecond, 1000 * Millisecond, 1500 * Millisecond]"
proof -
  have h1: "\<forall>t. 0 < t \<and> t < 1500 * Millisecond \<longrightarrow> not_ready (endpoint_503_until (1500 * Millisecond) t)"
    by (simp add: endpoint_503_until_def StatusOK_def)
  have h2: "endpoint_503_until (1500 * Millisecond) (1500 * Millisecond) = (Some \<lparr>StatusCode = 200\<rparr>, None)"
    by (simp add: endpoint_503_until_def)
  have h3: "StatusCode \<lparr>StatusCode = 200\<rparr> = 200" by simp
  have h4: "(3::nat) \<le> 10" by simp
  have h5: "not_ready (endpoint_503_until (1500 * Millisecond) (1000 * Millisecond))"
    using h1 by (simp add: Millisecond_def)
  from ready_after_two_failed_polls [OF h1 h2 h3 h4, of "''http://127.0.0.1:19090/-/ready''"] h5 h2
  show ?thesis by blast
qed

text \<open>
  C5. If the flags parse, both setup calls succeed, and the select of iteration \<open>j\<close>
  receives the termination signal while the gate is still polling (it is still in its
  loop after \<open>j\<close> ticks), then the program logs the signal and calls \<^verbatim>\<open>os.Exit(0)\<close>:
  it ends with exit status 0, the exit being the last action. The run function of the
  signal listener returns nil whether it received the signal or was interrupted.
\<close>

theorem term_signal_during_gate:
  assumes "flag_Parse (args env) flag_defaults = Inr fl"
    and "url_Parse env (reloadURLStr fl) = None"
    and "http_NewRequest env (readyURLStr fl) = None"
    and "term_iteration env = Some j"
    and "j < iterations env"
    and "snd (wait_ready (readyURLStr fl) (ready_endpoint env) None j) = Blocked"
  shows "main env =
           ([MustRegister, SignalNotify]
              @ fst (wait_ready (readyURLStr fl) (ready_endpoint env) None j)
              @ [Log Info ''received SIGTERM, exiting gracefully...'', OsExit 0], Exited 0)
       \<and> exit_status (snd (main env)) = Some 0
       \<and> snd (signal_execute ev) = None"
proof -
  have "main env =
           ([MustRegister, SignalNotify]
              @ fst (wait_ready (readyURLStr fl) (ready_endpoint env) None j)
              @ [Log Info ''received SIGTERM, exiting gracefully...'', OsExit 0], Exited 0)"
    unfolding main_setup_ok [OF assms(1,2,3)] assms(4) wait_ready_term [OF assms(5,6)]
    by simp
  moreover have "snd (signal_execute ev) = None"
    by (cases ev) simp_all
  ultimately show ?thesis by simp
qed

text \<open>
  The signal arrives at the third select, after two answers 503: exit status 0.
\<close>

theorem term_signal_during_gate_witness:
  "flag_Parse (args (quiet_env\<lparr>term_iteration := Some 2\<rparr>)) flag_defaults = Inr flag_defaults
   \<and> snd (wait_ready (readyURLStr flag_defaults) (ready_endpoint (quiet_env\<lparr>term_iteration := Some 2\<rparr>)) None 2) = Blocked
   \<and> snd (main (quiet_env\<lparr>term_iteration := Some 2\<rparr>)) = Exited 0
   \<and> exit_status (snd (main (quiet_env\<lparr>term_iteration := Some 2\<rparr>))) = Some 0"
proof -
  let ?e = "quiet_env\<lparr>term_iteration := Some 2\<rparr>"
  have h1: "flag_Parse (args ?e) flag_defaults = Inr flag_defaults"
    by (simp add: quiet_env_def)
  have h2: "url_Parse ?e (reloadURLStr flag_defaults) = None"
    by (simp add: quiet_env_def)
  have h3: "http_NewRequest ?e (readyURLStr flag_defaults) = None"
    by (simp add: quiet_env_def)
  have h4: "term_iteration ?e = Some 2"
    by (simp add: quiet_env_def)
  have h5: "2 < iterations ?e"
    by (simp add: quiet_env_def)
  have h6: "snd (wait_ready (readyURLStr flag_defaults) (ready_endpoint ?e) None 2) = Blocked"
    by code_simp
  from term_signal_during_gate [OF h1 h2 h3 h4 h5 h6] h1 h6 show ?thesis by simp
qed

text \<open>
  C6. With flags that parse: if \<^verbatim>\<open>url.Parse\<close> of the reload URL or
  \<^verbatim>\<open>http.NewRequest\<close> for the readiness URL fails, the program exits with status 1 and
  its trace has no action that constructs, registers or starts an actor. If both succeed
  and the gate is ready, \<^verbatim>\<open>g.Run()\<close> is called and decides the exit status: 1 when it
  returns an error, 0 when it returns nil (and none while it has not returned). The same
  holds whenever \<^verbatim>\<open>g.Run()\<close> is in the trace.
\<close>

theorem exit_codes:
  assumes "flag_Parse (args env) flag_defaults = Inr fl"
  shows "(url_Parse env (reloadURLStr fl) \<noteq> None \<or> http_NewRequest env (readyURLStr fl) \<noteq> None \<longrightarrow>
            exit_status (snd (main env)) = Some 1
            \<and> (\<forall>a \<in> set (fst (main env)). \<not> actor_action a))
       \<and> (url_Parse env (reloadURLStr fl) = None \<and> http_NewRequest env (readyURLStr fl) = None
            \<and> snd (wait_ready (readyURLStr fl) (ready_endpoint env) (term_iteration env)
                     (iterations env)) = Returned \<longrightarrow>
            GroupRun \<in> set (fst (main env))
            \<and> exit_status (snd (main env)) =
                (case group_Run env of None \<Rightarrow> None | Some None \<Rightarrow> Some 0 | Some (Some e) \<Rightarrow> Some 1))
       \<and> (GroupRun \<in> set (fst (main env)) \<longrightarrow>
            exit_status (snd (main env)) =
                (case group_Run env of None \<Rightarrow> None | Some None \<Rightarrow> Some 0 | Some (Some e) \<Rightarrow> Some 1))"
proof (cases "url_Parse env (reloadURLStr fl)")
  case (Some e)
  show ?thesis unfolding main_url_error [OF assms Some] using Some by simp
next
  case None
  show ?thesis
  proof (cases "http_NewRequest env (readyURLStr fl)")
    case (Some e)
    show ?thesis unfolding main_request_error [OF assms None Some] using None Some by simp
  next
    case n2: None
    let ?w = "wait_ready (readyURLStr fl) (ready_endpoint env) (term_iteration env) (iterations env)"
    show ?thesis
    proof (cases "snd ?w = Returned")
      case True
      then show ?thesis unfolding main_setup_ok [OF assms None n2] using None n2
        by (simp add: supervise_exit supervise_GroupRun Let_def)
    next
      case False
      have "GroupRun \<notin> set (fst ?w)" using wait_ready_no_actor [of GroupRun] by auto
      then show ?thesis unfolding main_setup_ok [OF assms None n2] using None n2 False
        by (simp add: Let_def)
    qed
  qed
qed

text \<open>
  Four runs: a reload URL that does not parse, a request that cannot be built, a metrics
  server that cannot bind, and a run group that returns nil.
\<close>

theorem exit_codes_witness:
  "exit_status (snd (main (quiet_env\<lparr>url_Parse := (\<lambda>s. Some ''missing protocol scheme'')\<rparr>))) = Some 1
   \<and> exit_status (snd (main (quiet_env\<lparr>http_NewRequest := (\<lambda>s. Some ''invalid URL'')\<rparr>))) = Some 1
   \<and> exit_status (snd (main (ready_env (Some (Some ''listen tcp :19091: bind: address already in use''))))) = Some 1
   \<and> exit_status (snd (main (ready_env (Some None)))) = Some 0
   \<and> GroupRun \<in> set (fst (main (ready_env (Some None))))"
proof -
  let ?e1 = "quiet_env\<lparr>url_Parse := (\<lambda>s. Some ''missing protocol scheme'')\<rparr>"
  let ?e2 = "quiet_env\<lparr>http_NewRequest := (\<lambda>s. Some ''invalid URL'')\<rparr>"
  let ?e3 = "ready_env (Some (Some ''listen tcp :19091: bind: address already in use''))"
  let ?e4 = "ready_env (Some None)"
  have f1: "flag_Parse (args ?e1) flag_defaults = Inr flag_defaults"
    and f2: "flag_Parse (args ?e2) flag_defaults = Inr flag_defaults"
    and f3: "flag_Parse (args ?e3) flag_defaults = Inr flag_defaults"
    and f4: "flag_Parse (args ?e4) flag_defaults = Inr flag_defaults"
    by (simp_all add: quiet_env_def ready_env_def)
  have p1: "url_Parse ?e1 (reloadURLStr flag_defaults) \<noteq> None"
    and p2: "http_NewRequest ?e2 (readyURLStr flag_defaults) \<noteq> None"
    by (simp_all add: quiet_env_def)
  have p3: "url_Parse ?e3 (reloadURLStr flag_defaults) = None \<and> http_NewRequest ?e3 (readyURLStr flag_defaults) = None
            \<and> group_Run ?e3 = Some (Some ''listen tcp :19091: bind: address already in use'')"
    and p4: "url_Parse ?e4 (reloadURLStr flag_defaults) = None \<and> http_NewRequest ?e4 (readyURLStr flag_defaults) = None
            \<and> group_Run ?e4 = Some None"
    by (simp_all add: quiet_env_def ready_env_def)
  have w3: "snd (wait_ready (readyURLStr flag_defaults) (ready_endpoint ?e3) (term_iteration ?e3) (iterations ?e3)) = Returned"
    by code_simp
  have w4: "snd (wait_ready (readyURLStr flag_defaults) (ready_endpoint ?e4) (term_iteration ?e4) (iterations ?e4)) = Returned"
    by code_simp
  from exit_codes [OF f1] p1 have 1: "exit_status (snd (main ?e1)) = Some 1" by blast
  from exit_codes [OF f2] p2 have 2: "exit_status (snd (main ?e2)) = Some 1" by blast
  from exit_codes [OF f3] p3 w3 have 3: "exit_status (snd (main ?e3)) = Some 1" by simp
  from exit_codes [OF f4] p4 w4 have 4: "exit_status (snd (main ?e4)) = Some 0 \<and> GroupRun \<in> set (fst (main ?e4))" by simp
  from 1 2 3 4 show ?thesis by blast
qed

text \<open>
  C7. Every action of the program that constructs, registers or starts an actor comes
  after main's receive on \<^verbatim>\<open>done\<close>, and such an action exists only in a run whose
  readiness wait has returned after a 200 answer.
\<close>

theorem actors_only_after_ready:
  assumes "i < length (fst (main env))" and "actor_action (fst (main env) ! i)"
  shows "(\<exists>j<i. fst (main env) ! j = DoneRecv)
       \<and> (\<exists>fl. flag_Parse (args env) flag_defaults = Inr fl
              \<and> snd (wait_ready (readyURLStr fl) (ready_endpoint env) (term_iteration env)
                       (iterations env)) = Returned)"
proof (cases "flag_Parse (args env) flag_defaults")
  case (Inl e)
  have "\<forall>a \<in> set (fst (main env)). \<not> actor_action a"
    unfolding main_parse_error [OF Inl] by simp
  with assms show ?thesis using nth_mem by blast
next
  case (Inr fl)
  let ?w = "wait_ready (readyURLStr fl) (ready_endpoint env) (term_iteration env) (iterations env)"
  show ?thesis
  proof (cases "url_Parse env (reloadURLStr fl) = None \<and> http_NewRequest env (readyURLStr fl) = None")
    case False
    then have "\<forall>a \<in> set (fst (main env)). \<not> actor_action a"
      using main_url_error [OF Inr] main_request_error [OF Inr] by (cases "url_Parse env (reloadURLStr fl)") auto
    with assms show ?thesis using nth_mem by blast
  next
    case True
    note m = main_setup_ok [OF Inr conjunct1 [OF True] conjunct2 [OF True]]
    have na: "\<forall>a \<in> set ([MustRegister, SignalNotify] @ fst ?w). \<not> actor_action a"
      using wait_ready_no_actor [of _ "readyURLStr fl"] by auto
    show ?thesis
    proof (cases "snd ?w = Returned")
      case False
      then have "\<forall>a \<in> set (fst (main env)). \<not> actor_action a"
        unfolding m using na by (simp add: Let_def)
      with assms show ?thesis using nth_mem by blast
    next
      case R: True
      have tr: "fst (main env) = ([MustRegister, SignalNotify] @ fst ?w) @ fst (supervise fl (group_Run env))"
        unfolding m using R by (simp add: Let_def)
      have d: "DoneRecv \<in> set ([MustRegister, SignalNotify] @ fst ?w)"
        using wait_ready_returned_DoneRecv [OF R] by simp
      have "\<exists>j<i. fst (main env) ! j = DoneRecv"
        using assms unfolding tr by (intro nth_after_prefix [OF na d])
      with Inr R show ?thesis by blast
    qed
  qed
qed

text \<open>
  With an endpoint that answers 200 at once, the first actor action, the construction of
  the reloader, is action number 11 of the trace and follows the receive on \<^verbatim>\<open>done\<close>.
\<close>

theorem actors_only_after_ready_witness:
  "11 < length (fst (main (ready_env None)))
   \<and> fst (main (ready_env None)) ! 11 = ReloaderNew
        \<lparr>ReloadURL = ''http://127.0.0.1:19090/-/reload'', CfgFile = [], CfgOutputFile = [],
         WatchedDirs = [], WatchInterval = 10 * Second, RetryInterval = 5 * Second,
         DelayInterval = 3 * Second\<rparr>
   \<and> (\<exists>j<11. fst (main (ready_env None)) ! j = DoneRecv)"
proof -
  have h1: "11 < length (fst (main (ready_env None)))"
    by code_simp
  have e: "fst (main (ready_env None)) ! 11 = ReloaderNew
        \<lparr>ReloadURL = ''http://127.0.0.1:19090/-/reload'', CfgFile = [], CfgOutputFile = [],
         WatchedDirs = [], WatchInterval = 10 * Second, RetryInterval = 5 * Second,
         DelayInterval = 3 * Second\<rparr>"
    by code_simp
  have h2: "actor_action (fst (main (ready_env None)) ! 11)"
    unfolding e by simp
  from actors_only_after_ready [OF h1 h2] h1 e show ?thesis by blast
qed

text \<open>
  C8. The interrupt function of the metrics server calls \<^verbatim>\<open>Shutdown\<close> exactly once,
  under a context whose timeout is \<^verbatim>\<open>time.Minute\<close>, that is 60 s. Afterwards the server
  accepts no connection; the call has waited for the requests in flight, and one minute at
  most; the failure is logged exactly when the requests in flight need more than one
  minute, and the shutdown is then given up.
\<close>

theorem metrics_shutdown_grace:
  "filter is_shutdown (fst (metrics_interrupt e s)) = [ServerShutdown Minute]
   \<and> Minute = 60 * Second
   \<and> Minute = 60000000000
   \<and> listening (fst (snd (metrics_interrupt e s))) = False
   \<and> snd (snd (metrics_interrupt e s)) = min (drain_time s) Minute
   \<and> snd (snd (metrics_interrupt e s)) \<le> Minute
   \<and> (Log Error ''Server failed to shut down gracefully.'' \<in> set (fst (metrics_interrupt e s)))
       = (Minute < drain_time s)"
  by (simp add: metrics_interrupt_def server_Shutdown_def Minute_def Second_def Millisecond_def)

text \<open>
  C9. After the flags are parsed, \<^verbatim>\<open>reload-url\<close>, \<^verbatim>\<open>ready-url\<close> and
  \<^verbatim>\<open>listen-address\<close> have their defaults
  \<^verbatim>\<open>http://127.0.0.1:19090/-/reload\<close>, \<^verbatim>\<open>http://127.0.0.1:19090/-/ready\<close> and
  \<^verbatim>\<open>:19091\<close> unless they occur on the command line, and the watched directories are
  the values of all occurrences of \<^verbatim>\<open>watched-dir\<close>, in order, duplicates included:
  \<^verbatim>\<open>Set\<close> appends its argument.
\<close>

theorem flags_defaults_and_watched_dirs:
  "flag_Parse as flag_defaults = Inr fl \<Longrightarrow>
     (''reload-url'' \<notin> fst ` set as \<longrightarrow> reloadURLStr fl = ''http://127.0.0.1:19090/-/reload'')
     \<and> (''ready-url'' \<notin> fst ` set as \<longrightarrow> readyURLStr fl = ''http://127.0.0.1:19090/-/ready'')
     \<and> (''listen-address'' \<notin> fst ` set as \<longrightarrow> listenAddress fl = '':19091'')
     \<and> watchedDirs fl = map snd (filter (\<lambda>a. fst a = ''watched-dir'') as)
     \<and> stringSlice_Set ss v = (ss @ [v], None)"
  using flag_Parse_fields [of as flag_defaults fl]
  by (simp add: flag_defaults_def stringSlice_Set_def)

text \<open>
  A command line with three occurrences of \<^verbatim>\<open>watched-dir\<close>, two of them equal, and
  a configuration file.
\<close>

theorem flags_defaults_and_watched_dirs_witness:
  "flag_Parse [(''watched-dir'', ''/etc/rules''), (''config-file'', ''/etc/cfg.yaml''),
               (''watched-dir'', ''/etc/secrets''), (''watched-dir'', ''/etc/rules'')] flag_defaults
     = Inr \<lparr>watchedDirs = [''/etc/rules'', ''/etc/secrets'', ''/etc/rules''],
            configFile = ''/etc/cfg.yaml'', configFileOutput = [],
            reloadURLStr = ''http://127.0.0.1:19090/-/reload'',
            readyURLStr = ''http://127.0.0.1:19090/-/ready'',
            listenAddress = '':19091''\<rparr>
   \<and> watchedDirs \<lparr>watchedDirs = [''/etc/rules'', ''/etc/secrets'', ''/etc/rules''],
            configFile = ''/etc/cfg.yaml'', configFileOutput = [],
            reloadURLStr = ''http://127.0.0.1:19090/-/reload'',
            readyURLStr = ''http://127.0.0.1:19090/-/ready'',
            listenAddress = '':19091''\<rparr>
       = map snd (filter (\<lambda>a. fst a = ''watched-dir'')
           [(''watched-dir'', ''/etc/rules''), (''config-file'', ''/etc/cfg.yaml''),
            (''watched-dir'', ''/etc/secrets''), (''watched-dir'', ''/etc/rules'')])"
proof -
  have h: "flag_Parse [(''watched-dir'', ''/etc/rules''), (''config-file'', ''/etc/cfg.yaml''),
               (''watched-dir'', ''/etc/secrets''), (''watched-dir'', ''/etc/rules'')] flag_defaults
     = Inr \<lparr>watchedDirs = [''/etc/rules'', ''/etc/secrets'', ''/etc/rules''],
            configFile = ''/etc/cfg.yaml'', configFileOutput = [],
            reloadURLStr = ''http://127.0.0.1:19090/-/reload'',
            readyURLStr = ''http://127.0.0.1:19090/-/ready'',
            listenAddress = '':19091''\<rparr>"
    by (simp add: flag_set_def flag_defaults_def stringSlice_Set_def)
  from flags_defaults_and_watched_dirs [OF h] h show ?thesis by blast
qed

text \<open>
  C10. In every run of the readiness gate no request is sent before 500 ms have passed
  since the ticker was created: every request has a time of at least 500 ms, the first
  one, if there is one, exactly 500 ms, and before the first tick the gate has sent
  nothing.
\<close>

theorem first_request_after_interval:
  "(\<forall>t \<in> set (request_times (fst (wait_ready url endpoint term n))). 500 * Millisecond \<le> t)
   \<and> (request_times (fst (wait_ready url endpoint term n)) \<noteq> [] \<longrightarrow>
        hd (request_times (fst (wait_ready url endpoint term n))) = 500 * Millisecond)
   \<and> wait_ready url endpoint term 0 =
        ([NewTicker (500 * Millisecond), Log Info ''ensure ready-url is healthy''], Blocked)
   \<and> 500 * Millisecond = 500000000"
proof -
  obtain m where m: "request_times (fst (wait_ready url endpoint term n)) = map (ticker_time (500 * Millisecond)) [0..<m]"
    using wait_ready_request_times [of n url endpoint "term"] by (elim exE conjE)
  have 1: "\<forall>t \<in> set (request_times (fst (wait_ready url endpoint term n))). 500 * Millisecond \<le> t"
    unfolding m by (auto simp: ticker_time_def Millisecond_def)
  have 2: "request_times (fst (wait_ready url endpoint term n)) \<noteq> [] \<longrightarrow>
        hd (request_times (fst (wait_ready url endpoint term n))) = 500 * Millisecond"
    unfolding m by (cases m) (simp_all add: ticker_time_def hd_map hd_upt del: upt_Suc)
  have 3: "wait_ready url endpoint term 0 =
        ([NewTicker (500 * Millisecond), Log Info ''ensure ready-url is healthy''], Blocked)"
    by (cases "term") (simp_all add: wait_ready_def ready_goroutine_def selects_def ticks_def)
  show ?thesis using 1 2 3 by (simp add: Millisecond_def)
qed

text \<open>
  Two ticks with answers 503: requests at 0.5 s and 1.0 s.
\<close>

theorem first_request_after_interval_witness:
  "request_times (fst (wait_ready ''http://127.0.0.1:19090/-/ready''
       (\<lambda>t. (Some \<lparr>StatusCode = 503\<rparr>, None)) None 2)) = [500000000, 1000000000]
   \<and> hd (request_times (fst (wait_ready ''http://127.0.0.1:19090/-/ready''
       (\<lambda>t. (Some \<lparr>StatusCode = 503\<rparr>, None)) None 2))) = 500 * Millisecond"
proof -
  have r: "request_times (fst (wait_ready ''http://127.0.0.1:19090/-/ready''
       (\<lambda>t. (Some \<lparr>StatusCode = 503\<rparr>, None)) None 2)) = [500000000, 1000000000]"
    by code_simp
  from first_request_after_interval [of "''http://127.0.0.1:19090/-/ready''"
       "\<lambda>t. (Some \<lparr>StatusCode = 503\<rparr>, None)" None 2] r
  show ?thesis by simp
qed

end
